theory Spec2Isabelle
  imports Complex_Main
begin

section \<open>The Zendure manager: data model\<close>

text \<open>
  The development embeds \<^verbatim>\<open>custom_components/zendure_ha/zendurermanager.py\<close>:
  the class \<^verbatim>\<open>ZendureManager\<close> with its methods \<^verbatim>\<open>update_operation\<close>,
  \<^verbatim>\<open>_update_energy\<close>, \<^verbatim>\<open>upd_charging\<close>, \<^verbatim>\<open>upd_discharging\<close> and
  \<^verbatim>\<open>on_message\<close>.

  Exceptions are values. Only the exception classes that the modelled statements can
  raise are listed.
\<close>

datatype error =
    TypeError
  | ValueError
  | AttributeError
  | NameError
  | JSONDecodeError
  | UnicodeDecodeError
  | OtherError

text \<open>
  Modelled from the spec: the class \<^verbatim>\<open>Hyper2000\<close> (\<^verbatim>\<open>hyper2000.py\<close>) is not among the
  sources. The manager reads \<^verbatim>\<open>h.sensors[name].state\<close> for the seven names below; the
  spec's DeviceState lists exactly these attributes and says that every one of them is a
  sentinel "unknown" until the first inbound message arrives. A sensor is a
  \<^verbatim>\<open>ZendureSensor\<close> (\<^verbatim>\<open>sensor.py\<close>), whose \<^verbatim>\<open>update_value\<close> stores \<^verbatim>\<open>int(value)\<close>;
  before that its state is Python's \<^verbatim>\<open>None\<close>. So a state is \<open>None\<close> (unknown) or
  \<open>Some n\<close> for an unbounded Python int \<open>n\<close>.
\<close>

record hyper =
  electricLevel :: "int option"
  minSoc :: "int option"
  socSet :: "int option"
  inputLimit :: "int option"
  outputLimit :: "int option"
  gridInputPower :: "int option"
  outputHomePower :: "int option"

text \<open>
  Log records written through \<^verbatim>\<open>_LOGGER\<close>, and the calls
  \<^verbatim>\<open>h.update_power(self._mqtt, chargetype, chargepower, outpower)\<close>, are the observable
  effects of a handler, kept in the order in which they happen.

  Modelled from the spec: \<^verbatim>\<open>Hyper2000.update_power\<close> is not among the sources. The spec
  says that \<^verbatim>\<open>applyPower(chargeFlag, chargeWatts, dischargeWatts)\<close> builds and publishes
  one command message with the given values and validates nothing; the call is recorded
  as one \<open>UpdatePower\<close> effect carrying the device key and the three arguments.
\<close>

datatype info =
    ValidCharging nat int
  | ValidDischarging nat int
  | UpdateEnergy int
  | Charging int
  | Discharging int

datatype effect =
    UpdatePower string int int int
  | LogInfo info
  | LogError error

text \<open>
  A \<^verbatim>\<open>datetime\<close> is a count of microseconds; \<^verbatim>\<open>timedelta(minutes=5)\<close> is
  \<open>five_minutes\<close>.
\<close>

type_synonym time = int

definition five_minutes :: time where
  "five_minutes = 300000000"

text \<open>
  The attributes of \<^verbatim>\<open>ZendureManager\<close> that the handlers read or write.
  \<^verbatim>\<open>self.hypers\<close> is a dict from device id to \<^verbatim>\<open>Hyper2000\<close> object: \<open>hypers\<close>
  holds its keys in insertion order (the order of \<^verbatim>\<open>self.hypers.values()\<close>), and
  \<open>sensors\<close> is the object store, giving the current sensor states of the object behind
  a key. The candidate lists \<^verbatim>\<open>_hypers_charge\<close> and \<^verbatim>\<open>_hypers_discharge\<close> hold
  references to these objects, that is keys: what is read through them later is the
  state the object has then, not the state at ranking time.
\<close>

record manager =
  hypers :: "string list"
  sensors :: "string \<Rightarrow> hyper"
  consumed :: string
  produced :: string
  next_update :: time
  operation :: int
  hypers_charge :: "string list"
  hypers_discharge :: "string list"
  max_charge :: int
  max_discharge :: int

text \<open>
  A state-change event as \<^verbatim>\<open>_update_energy\<close> uses it: \<^verbatim>\<open>event.data["entity_id"]\<close>,
  and the outcome of \<^verbatim>\<open>int(float(event.data["new_state"].state))\<close>, which is an int
  or the exception the expression raises (\<^verbatim>\<open>new_state\<close> is \<^verbatim>\<open>None\<close>, or the state is
  a text such as "unavailable").
\<close>

record event =
  entity_id :: string
  power_reading :: "error + int"

section \<open>Python primitives\<close>

text \<open>
  \<^verbatim>\<open>float(x)\<close> of a sensor state: a \<^verbatim>\<open>TypeError\<close> on \<^verbatim>\<open>None\<close>. On an int the
  conversion is taken to be exact, which it is for every int of magnitude up to
  \<open>2 ^ 53\<close>; beyond that Python rounds to the nearest double, and raises an
  \<^verbatim>\<open>OverflowError\<close> beyond the range of a double. The states compared are
  percentages; the theorem on the contents of the ranked lists carries the bound as a
  hypothesis.
\<close>

fun py_float :: "int option \<Rightarrow> error + int" where
  "py_float None = Inl TypeError"
| "py_float (Some n) = Inr n"

text \<open>
  \<^verbatim>\<open>sum(gen)\<close> starts at 0 and adds from left to right; \<^verbatim>\<open>0 + None\<close> raises a
  \<^verbatim>\<open>TypeError\<close>.
\<close>

fun py_sum_from :: "int \<Rightarrow> int option list \<Rightarrow> error + int" where
  "py_sum_from acc [] = Inr acc"
| "py_sum_from acc (None # xs) = Inl TypeError"
| "py_sum_from acc (Some n # xs) = py_sum_from (acc + n) xs"

definition py_sum :: "int option list \<Rightarrow> error + int" where
  "py_sum xs = py_sum_from 0 xs"

text \<open>
  A list comprehension \<^verbatim>\<open>[h for h in xs if cond(h)]\<close> whose condition may raise: the
  first exception ends the comprehension and no list is built.
\<close>

fun filter_err :: "('a \<Rightarrow> error + bool) \<Rightarrow> 'a list \<Rightarrow> error + 'a list" where
  "filter_err p [] = Inr []"
| "filter_err p (x # xs) =
     (case p x of
        Inl e \<Rightarrow> Inl e
      | Inr b \<Rightarrow>
          (case filter_err p xs of
             Inl e \<Rightarrow> Inl e
           | Inr ys \<Rightarrow> Inr (if b then x # ys else ys)))"

text \<open>
  \<^verbatim>\<open>int(a / n)\<close> for ints \<open>a\<close> and a list length \<open>n\<close>: true division, then
  truncation towards zero. The quotient is taken exactly: the double that \<^verbatim>\<open>/\<close>
  returns has the same integer part for every \<open>a\<close> of magnitude below \<open>2 ^ 53\<close>, and
  is rounded beyond that. The amounts divided are watts; the theorem on the even split
  carries the bound as a hypothesis. Both call sites run only on a non-empty list, so
  \<open>n\<close> is never 0.
\<close>

definition int_truediv :: "int \<Rightarrow> nat \<Rightarrow> int" where
  "int_truediv a n = sgn a * (\<bar>a\<bar> div int n)"

section \<open>Ranking\<close>

text \<open>
  The two comprehension conditions of \<^verbatim>\<open>_update_energy\<close>:
  \<^verbatim>\<open>h.sensors["electricLevel"].state > float(h.sensors["minSoc"].state)\<close> and
  \<^verbatim>\<open>h.sensors["electricLevel"].state < float(h.sensors["socSet"].state)\<close>.
  Python evaluates the left operand, then \<^verbatim>\<open>float(...)\<close>, then the comparison;
  \<^verbatim>\<open>float(None)\<close> raises a \<^verbatim>\<open>TypeError\<close> and so does comparing \<^verbatim>\<open>None\<close> with a
  float.
\<close>

definition dischargeable :: "hyper \<Rightarrow> error + bool" where
  "dischargeable h =
     (case py_float (minSoc h) of
        Inl e \<Rightarrow> Inl e
      | Inr m \<Rightarrow>
          (case electricLevel h of
             None \<Rightarrow> Inl TypeError
           | Some l \<Rightarrow> Inr (l > m)))"

definition chargeable :: "hyper \<Rightarrow> error + bool" where
  "chargeable h =
     (case py_float (socSet h) of
        Inl e \<Rightarrow> Inl e
      | Inr m \<Rightarrow>
          (case electricLevel h of
             None \<Rightarrow> Inl TypeError
           | Some l \<Rightarrow> Inr (l < m)))"

text \<open>
  The sort key \<^verbatim>\<open>lambda h: h.sensors["electricLevel"].state\<close>. Every device that
  reaches a sort has passed a comparison of its \<^verbatim>\<open>electricLevel\<close>, which raises on
  \<^verbatim>\<open>None\<close>, so the key is only ever taken of a known state.
\<close>

definition level :: "manager \<Rightarrow> string \<Rightarrow> int" where
  "level s d = the (electricLevel (sensors s d))"

text \<open>
  The block of \<^verbatim>\<open>_update_energy\<close> guarded by the staleness test (lines 135 to 149),
  statement by statement. An exception leaves the assignments made before it in place.
  \<^verbatim>\<open>sorted\<close> is stable, also with \<^verbatim>\<open>reverse=True\<close>, where equal keys keep their
  original order: that is the stable ascending sort by the negated key.
\<close>

definition recompute :: "time \<Rightarrow> manager \<Rightarrow> manager \<times> effect list \<times> error option" where
  "recompute now s =
     (let s1 = s\<lparr>next_update := now + five_minutes\<rparr> in
      case filter_err (\<lambda>d. dischargeable (sensors s1 d)) (hypers s1) of
        Inl e \<Rightarrow> (s1, [], Some e)
      | Inr ds \<Rightarrow>
          (let s2 = s1\<lparr>hypers_discharge := sort_key (\<lambda>d. - level s1 d) ds\<rparr> in
           case filter_err (\<lambda>d. chargeable (sensors s2 d)) (hypers s2) of
             Inl e \<Rightarrow> (s2, [], Some e)
           | Inr cs \<Rightarrow>
               (let s3 = s2\<lparr>hypers_charge := sort_key (level s2) cs\<rparr> in
                case py_sum (map (\<lambda>d. inputLimit (sensors s3 d)) (hypers_charge s3)) of
                  Inl e \<Rightarrow> (s3, [], Some e)
                | Inr mc \<Rightarrow>
                    (let s4 = s3\<lparr>max_charge := mc\<rparr> in
                     case py_sum (map (\<lambda>d. outputLimit (sensors s4 d)) (hypers_discharge s4)) of
                       Inl e \<Rightarrow> (s4, [], Some e)
                     | Inr md \<Rightarrow>
                         (let s5 = s4\<lparr>max_discharge := md\<rparr> in
                          (s5,
                           [LogInfo (ValidCharging (length (hypers_charge s5)) (max_charge s5)),
                            LogInfo (ValidDischarging (length (hypers_discharge s5)) (max_discharge s5))],
                           None))))))"

text \<open>
  The staleness test of line 134, as written:
  \<^verbatim>\<open>(not self._hypers_charge and not self._hypers_charge) or (self.next_update < datetime.now())\<close>.
  Both operands of the \<^verbatim>\<open>and\<close> read \<^verbatim>\<open>_hypers_charge\<close>.
\<close>

definition stale :: "time \<Rightarrow> manager \<Rightarrow> bool" where
  "stale now s =
     ((hypers_charge s = [] \<and> hypers_charge s = []) \<or> next_update s < now)"

text \<open>
  Lines 134 to 149: the test and the guarded block. The two calls of
  \<^verbatim>\<open>datetime.now()\<close> are two readings of the clock, \<open>now1\<close> in the test and \<open>now2\<close>
  in the new deadline.
\<close>

definition refresh :: "time \<Rightarrow> time \<Rightarrow> manager \<Rightarrow> manager \<times> effect list \<times> error option" where
  "refresh now1 now2 s = (if stale now1 s then recompute now2 s else (s, [], None))"

section \<open>Allocation\<close>

definition upd_charging :: "manager \<Rightarrow> int \<Rightarrow> effect list" where
  "upd_charging s charge =
     LogInfo (Charging charge) #
     (case hypers_charge s of
        [] \<Rightarrow> []
      | h0 # rest \<Rightarrow>
          if charge < 400 then
            UpdatePower h0 1 charge 0 # map (\<lambda>h. UpdatePower h 0 0 0) rest
          else
            map (\<lambda>h. UpdatePower h 1 (int_truediv charge (length (hypers_charge s))) 0)
              (hypers_charge s))"

definition upd_discharging :: "manager \<Rightarrow> int \<Rightarrow> effect list" where
  "upd_discharging s discharge =
     LogInfo (Discharging discharge) #
     (case hypers_discharge s of
        [] \<Rightarrow> []
      | h0 # rest \<Rightarrow>
          if discharge < 400 then
            UpdatePower h0 0 0 discharge # map (\<lambda>h. UpdatePower h 0 0 0) rest
          else
            map (\<lambda>h. UpdatePower h 0 0 (int_truediv discharge (length (hypers_discharge s))))
              (hypers_discharge s))"

section \<open>The handlers\<close>

text \<open>
  \<^verbatim>\<open>update_operation\<close>: the mode is stored, and every mode other than 2 sends
  \<^verbatim>\<open>update_power(self._mqtt, 0, 0, 0)\<close> to every value of \<^verbatim>\<open>self.hypers\<close>.
\<close>

definition update_operation :: "int \<Rightarrow> manager \<Rightarrow> manager \<times> effect list" where
  "update_operation op s =
     (s\<lparr>operation := op\<rparr>,
      if op \<noteq> 2 then map (\<lambda>h. UpdatePower h 0 0 0) (hypers s) else [])"

text \<open>
  \<^verbatim>\<open>case 2\<close> of the \<^verbatim>\<open>match\<close> in \<^verbatim>\<open>_update_energy\<close>, inside the \<^verbatim>\<open>try\<close>. The
  third component is the exception that leaves the \<^verbatim>\<open>try\<close> body, if any.
\<close>

definition smart_matching ::
  "time \<Rightarrow> time \<Rightarrow> event \<Rightarrow> manager \<Rightarrow> manager \<times> effect list \<times> error option" where
  "smart_matching now1 now2 ev s =
     (case refresh now1 now2 s of
        (s1, fx1, Some e) \<Rightarrow> (s1, fx1, Some e)
      | (s1, fx1, None) \<Rightarrow>
          (case power_reading ev of
             Inl e \<Rightarrow> (s1, fx1, Some e)
           | Inr pwr \<Rightarrow>
               if pwr = 0 then (s1, fx1, None)
               else
                 (let fx2 = fx1 @ [LogInfo (UpdateEnergy pwr)] in
                  case py_sum (map (\<lambda>d. outputHomePower (sensors s1 d)) (hypers_discharge s1)) of
                    Inl e \<Rightarrow> (s1, fx2, Some e)
                  | Inr discharge \<Rightarrow>
                      if discharge > 0 then
                        (s1,
                         fx2 @ upd_discharging s1
                           (discharge + pwr * (if entity_id ev = consumed s1 then 1 else - 1)),
                         None)
                      else
                        (case py_sum (map (\<lambda>d. gridInputPower (sensors s1 d)) (hypers_charge s1)) of
                           Inl e \<Rightarrow> (s1, fx2, Some e)
                         | Inr charge \<Rightarrow>
                             if charge > 0 then
                               (s1,
                                fx2 @ upd_charging s1
                                  (charge + pwr * (if entity_id ev = consumed s1 then - 1 else 1)),
                                None)
                             else if entity_id ev = produced s1 then
                               (s1, fx2 @ upd_charging s1 pwr, None)
                             else
                               (s1, fx2 @ upd_discharging s1 pwr, None)))))"

text \<open>
  \<^verbatim>\<open>_update_energy\<close>. Modes 1 and everything but 2 return at once. The \<^verbatim>\<open>except\<close>
  clause logs the exception with \<^verbatim>\<open>_LOGGER.error(err)\<close> and then evaluates
  \<^verbatim>\<open>traceback.format_exc()\<close>; the module never imports \<^verbatim>\<open>traceback\<close>, so looking
  the name up raises a \<^verbatim>\<open>NameError\<close>, which leaves the handler. The third component is
  the exception that leaves the handler, if any.
\<close>

definition update_energy ::
  "time \<Rightarrow> time \<Rightarrow> event \<Rightarrow> manager \<Rightarrow> manager \<times> effect list \<times> error option" where
  "update_energy now1 now2 ev s =
     (case (if operation s = 1 then (s, [], None)
            else if operation s = 2 then smart_matching now1 now2 ev s
            else (s, [], None)) of
        (s', fx, None) \<Rightarrow> (s', fx, None)
      | (s', fx, Some e) \<Rightarrow> (s', fx @ [LogError e], Some NameError))"

text \<open>
  A parsed JSON value. A number is an int or a float; the handler below only tests a
  number for being zero and uses it as a dict key.
\<close>

datatype json =
    JNull
  | JBool bool
  | JNum rat
  | JStr string
  | JArr "json list"
  | JObj "(string \<times> json) list"

text \<open>
  An inbound transport message as \<^verbatim>\<open>on_message\<close> uses it: \<^verbatim>\<open>msg.topic\<close>, and the
  outcome of \<^verbatim>\<open>json.loads(msg.payload.decode())\<close>, which is a JSON value or the
  exception raised by decoding or parsing.
\<close>

record message =
  topic :: string
  payload :: "error + json"

text \<open>Python's truth value of a parsed JSON value (\<^verbatim>\<open>not x\<close> is its negation).\<close>

fun truthy :: "json \<Rightarrow> bool" where
  "truthy JNull = False"
| "truthy (JBool b) = b"
| "truthy (JNum n) = (n \<noteq> 0)"
| "truthy (JStr t) = (t \<noteq> [])"
| "truthy (JArr xs) = (xs \<noteq> [])"
| "truthy (JObj kvs) = (kvs \<noteq> [])"

text \<open>
  \<^verbatim>\<open>payload.get("deviceId", None)\<close>: only a dict has \<^verbatim>\<open>get\<close>, every other JSON value
  raises an \<^verbatim>\<open>AttributeError\<close>. \<^verbatim>\<open>json.loads\<close> keeps the last of several members
  with the same name. A missing member and a \<^verbatim>\<open>null\<close> member both give \<^verbatim>\<open>None\<close>.
\<close>

fun payload_get :: "json \<Rightarrow> string \<Rightarrow> error + json" where
  "payload_get (JObj kvs) k =
     (case map_of (rev kvs) k of None \<Rightarrow> Inr JNull | Some v \<Rightarrow> Inr v)"
| "payload_get _ k = Inl AttributeError"

text \<open>
  \<^verbatim>\<open>self.hypers.get(deviceid, None)\<close>: the keys of \<^verbatim>\<open>self.hypers\<close> are strings, so
  only a string can be found; a list or a dict is unhashable and raises a
  \<^verbatim>\<open>TypeError\<close>.
\<close>

fun hypers_get :: "manager \<Rightarrow> json \<Rightarrow> error + string option" where
  "hypers_get s (JStr k) = Inr (if k \<in> set (hypers s) then Some k else None)"
| "hypers_get s (JArr xs) = Inl TypeError"
| "hypers_get s (JObj kvs) = Inl TypeError"
| "hypers_get s _ = Inr None"

text \<open>
  \<^verbatim>\<open>on_message\<close>. \<^verbatim>\<open>Hyper2000.handle_message\<close> is not among the sources: it is the
  parameter \<open>handle_message\<close>, which takes the topic, the payload and the device's sensor
  states and returns the new states and the exception it raises, if any. A
  \<^verbatim>\<open>Hyper2000\<close> object is true in a condition. The \<^verbatim>\<open>except\<close> clause only logs.
\<close>

definition on_message ::
  "(string \<Rightarrow> json \<Rightarrow> hyper \<Rightarrow> hyper \<times> error option) \<Rightarrow> message \<Rightarrow> manager
     \<Rightarrow> manager \<times> effect list \<times> error option" where
  "on_message handle_message msg s =
     (case (case payload msg of
              Inl e \<Rightarrow> (s, Some e)
            | Inr pl \<Rightarrow>
                (case payload_get pl ''deviceId'' of
                   Inl e \<Rightarrow> (s, Some e)
                 | Inr deviceid \<Rightarrow>
                     if \<not> truthy deviceid then (s, None)
                     else
                       (case hypers_get s deviceid of
                          Inl e \<Rightarrow> (s, Some e)
                        | Inr None \<Rightarrow> (s, None)
                        | Inr (Some k) \<Rightarrow>
                            (case handle_message (topic msg) pl (sensors s k) of
                               (h', r) \<Rightarrow> (s\<lparr>sensors := (sensors s)(k := h')\<rparr>, r))))) of
        (s', None) \<Rightarrow> (s', [], None)
      | (s', Some e) \<Rightarrow> (s', [LogError e], None))"

section \<open>Concrete fleets\<close>

text \<open>
  \<^verbatim>\<open>__init__\<close> at clock reading \<open>now\<close>, with the catalog that \<^verbatim>\<open>initialize\<close> stores
  in \<^verbatim>\<open>self.hypers\<close> and the two configured entity ids.
\<close>

definition init_manager :: "time \<Rightarrow> string list \<Rightarrow> (string \<Rightarrow> hyper) \<Rightarrow> manager" where
  "init_manager now ks st =
     \<lparr>hypers = ks, sensors = st,
      consumed = ''sensor.consumed'', produced = ''sensor.produced'',
      next_update = now + five_minutes, operation = 0,
      hypers_charge = [], hypers_discharge = [],
      max_charge = 0, max_discharge = 0\<rparr>"

text \<open>A device that no inbound message has reached yet, and one that reports numbers.\<close>

definition unknown_hyper :: hyper where
  "unknown_hyper =
     \<lparr>electricLevel = None, minSoc = None, socSet = None, inputLimit = None,
      outputLimit = None, gridInputPower = None, outputHomePower = None\<rparr>"

definition reporting :: "int \<Rightarrow> int \<Rightarrow> int \<Rightarrow> int \<Rightarrow> int \<Rightarrow> hyper" where
  "reporting lvl lo hi gin hout =
     \<lparr>electricLevel = Some lvl, minSoc = Some lo, socSet = Some hi, inputLimit = Some 1200,
      outputLimit = Some 1200, gridInputPower = Some gin, outputHomePower = Some hout\<rparr>"

definition unknown :: "hyper \<Rightarrow> bool" where
  "unknown h =
     (electricLevel h = None \<and> minSoc h = None \<and> socSet h = None \<and> inputLimit h = None \<and>
      outputLimit h = None \<and> gridInputPower h = None \<and> outputHomePower h = None)"

definition known :: "hyper \<Rightarrow> bool" where
  "known h =
     (electricLevel h \<noteq> None \<and> minSoc h \<noteq> None \<and> socSet h \<noteq> None \<and> inputLimit h \<noteq> None \<and>
      outputLimit h \<noteq> None \<and> gridInputPower h \<noteq> None \<and> outputHomePower h \<noteq> None)"

definition event_of :: "string \<Rightarrow> int \<Rightarrow> event" where
  "event_of src w = \<lparr>entity_id = src, power_reading = Inr w\<rparr>"

definition set_level :: "string \<Rightarrow> json \<Rightarrow> hyper \<Rightarrow> hyper \<times> error option" where
  "set_level t pl h = (h\<lparr>electricLevel := Some 1\<rparr>, None)"

text \<open>The fleets used as concrete inputs, all in mode 2 (smart power matching).\<close>

definition three_candidates :: manager where
  "three_candidates =
     (init_manager 0 [''A'', ''B'', ''C''] (\<lambda>_. reporting 50 10 90 0 0))
       \<lparr>operation := 2, hypers_charge := [''A'', ''B'', ''C''],
        hypers_discharge := [''C'', ''B'', ''A'']\<rparr>"

definition full_battery :: manager where
  "full_battery = (init_manager 0 [''A''] (\<lambda>_. reporting 100 10 100 0 0))\<lparr>operation := 2\<rparr>"

definition full_battery_ranked :: manager where
  "full_battery_ranked =
     full_battery\<lparr>next_update := 300000001, hypers_discharge := [''A''], max_discharge := 1200\<rparr>"

definition unknown_fleet :: manager where
  "unknown_fleet = (init_manager 0 [''B''] (\<lambda>_. unknown_hyper))\<lparr>operation := 2\<rparr>"

definition mixed_fleet :: manager where
  "mixed_fleet =
     (init_manager 0 [''A'', ''B''] ((\<lambda>_. unknown_hyper)(''A'' := reporting 50 10 90 0 0)))
       \<lparr>operation := 2\<rparr>"

definition empty_fleet :: manager where
  "empty_fleet = (init_manager 0 [] (\<lambda>_. unknown_hyper))\<lparr>operation := 2\<rparr>"

definition ranking_fleet :: manager where
  "ranking_fleet =
     (init_manager 0 [''A'', ''B'', ''C'']
        ((\<lambda>_. unknown_hyper)
           (''A'' := reporting 50 10 90 0 300, ''B'' := reporting 100 10 100 0 0,
            ''C'' := reporting 5 10 100 0 0)))
       \<lparr>operation := 2\<rparr>"

definition discharging_300 :: manager where
  "discharging_300 =
     (init_manager 0 [''A''] (\<lambda>_. reporting 50 10 90 0 300))
       \<lparr>operation := 2, hypers_charge := [''A''], hypers_discharge := [''A''],
        max_charge := 1200, max_discharge := 1200\<rparr>"

definition charging_300 :: manager where
  "charging_300 =
     (init_manager 0 [''A''] (\<lambda>_. reporting 50 10 90 300 0))
       \<lparr>operation := 2, hypers_charge := [''A''], hypers_discharge := [''A''],
        max_charge := 1200, max_discharge := 1200\<rparr>"

definition half_full :: manager where
  "half_full = (init_manager 0 [''A''] (\<lambda>_. reporting 50 10 90 0 0))\<lparr>operation := 2\<rparr>"

section \<open>Vocabulary of the properties\<close>

text \<open>
  A power signal at clock reading \<open>now\<close> enters the guarded block of lines 135 to 149:
  the manager is in mode 2 and the test of line 134 holds.
\<close>

definition recomputes :: "time \<Rightarrow> manager \<Rightarrow> bool" where
  "recomputes now s = (operation s = 2 \<and> stale now s)"

text \<open>
  The state that the guarded block leaves when nothing in it raises: both lists filtered
  and sorted, both limits summed, the deadline reset.
\<close>

definition ranked :: "time \<Rightarrow> manager \<Rightarrow> manager" where
  "ranked now s =
     (let ds = sort_key (\<lambda>d. - level s d)
                 (filter (\<lambda>d. the (minSoc (sensors s d)) < level s d) (hypers s));
          cs = sort_key (level s)
                 (filter (\<lambda>d. level s d < the (socSet (sensors s d))) (hypers s))
      in s\<lparr>next_update := now + five_minutes, hypers_discharge := ds, hypers_charge := cs,
           max_charge := (\<Sum>d\<leftarrow>cs. the (inputLimit (sensors s d))),
           max_discharge := (\<Sum>d\<leftarrow>ds. the (outputLimit (sensors s d)))\<rparr>)"

text \<open>An effect that is a command to a device, as opposed to a log record.\<close>

fun is_command :: "effect \<Rightarrow> bool" where
  "is_command (UpdatePower h a b c) = True"
| "is_command _ = False"

text \<open>
  An int that \<^verbatim>\<open>float\<close> converts without rounding: every int of magnitude up to
  \<open>2 ^ 53\<close> is a double.
\<close>

definition exact_double :: "int \<Rightarrow> bool" where
  "exact_double n = (- (2 ^ 53) \<le> n \<and> n \<le> 2 ^ 53)"

text \<open>A payload that is a JSON object, the only JSON value with a \<^verbatim>\<open>get\<close> method.\<close>

fun is_object :: "json \<Rightarrow> bool" where
  "is_object (JObj kvs) = True"
| "is_object _ = False"

text \<open>The \<^verbatim>\<open>deviceId\<close> member of a payload, if the payload is an object that has one.\<close>

definition device_id :: "json \<Rightarrow> json option" where
  "device_id pl = (case pl of JObj kvs \<Rightarrow> map_of (rev kvs) ''deviceId'' | _ \<Rightarrow> None)"

lemmas fleet_defs =
  init_manager_def reporting_def unknown_hyper_def event_of_def five_minutes_def

lemmas ranking_defs =
  recompute_def refresh_def stale_def py_sum_def dischargeable_def chargeable_def level_def

section \<open>Primitives\<close>

lemma int_truediv_floor: "0 \<le> a \<Longrightarrow> int_truediv a n = a div int n"
  by (cases "a = 0") (simp_all add: int_truediv_def)

lemma count_list_map_distinct:
  "inj f \<Longrightarrow> distinct xs \<Longrightarrow> d \<in> set xs \<Longrightarrow> count_list (map f xs) (f d) = 1"
proof (induction xs)
  case Nil
  then show ?case by simp
next
  case (Cons x xs)
  show ?case
  proof (cases "x = d")
    case True
    with Cons.prems have "f d \<notin> set (map f xs)"
      by (auto dest: injD)
    then have "count_list (map f xs) (f d) = 0"
      using count_list_0_iff [of "map f xs" "f d"] by blast
    with True show ?thesis by simp
  next
    case False
    with Cons show ?thesis by (auto dest: injD)
  qed
qed

lemma inj_zero_flow: "inj (\<lambda>h. UpdatePower h 0 0 0)"
  by (rule injI) simp

lemma filter_err_total:
  "(\<forall>x \<in> set xs. p x = Inr (q x)) \<Longrightarrow> filter_err p xs = Inr (filter q xs)"
  by (induction xs) simp_all

lemma filter_err_raises:
  assumes "x \<in> set xs" and "p x = Inl e" and "\<And>y e'. p y = Inl e' \<Longrightarrow> e' = e"
  shows "filter_err p xs = Inl e"
  using assms(1,2)
proof (induction xs)
  case Nil
  then show ?case by simp
next
  case (Cons y ys)
  show ?case
  proof (cases "p y")
    case (Inl e')
    with assms(3) show ?thesis by simp
  next
    case (Inr b)
    with Cons have "filter_err p ys = Inl e" by auto
    with Inr show ?thesis by simp
  qed
qed

lemma filter_err_subset: "filter_err p xs = Inr ys \<Longrightarrow> set ys \<subseteq> set xs"
proof (induction xs arbitrary: ys)
  case Nil
  then show ?case by simp
next
  case (Cons x xs)
  then show ?case
    by (auto split: sum.splits if_splits)
qed

lemma py_sum_from_known:
  "(\<forall>x \<in> set xs. x \<noteq> None) \<Longrightarrow> py_sum_from acc xs = Inr (acc + sum_list (map the xs))"
proof (induction xs arbitrary: acc)
  case Nil
  then show ?case by simp
next
  case (Cons x xs)
  then obtain n where "x = Some n" by auto
  with Cons show ?case by simp
qed

lemma py_sum_known:
  "(\<forall>d \<in> set ds. f d \<noteq> None) \<Longrightarrow> py_sum (map f ds) = Inr (\<Sum>d\<leftarrow>ds. the (f d))"
  using py_sum_from_known [of "map f ds" 0]
  by (simp add: py_sum_def comp_def)

lemma sorted_descending:
  fixes f :: "'a \<Rightarrow> int"
  shows "sorted (map (\<lambda>x. - f x) xs) \<Longrightarrow> sorted (rev (map f xs))"
  by (induction xs) (auto simp: sorted_append)

section \<open>Ranking: the guarded block\<close>

lemma dischargeable_error: "dischargeable h = Inl e \<Longrightarrow> e = TypeError"
  by (cases "minSoc h"; cases "electricLevel h") (simp_all add: dischargeable_def)

lemma dischargeable_unknown: "unknown h \<Longrightarrow> dischargeable h = Inl TypeError"
  by (simp add: dischargeable_def unknown_def)

lemma dischargeable_known:
  "known h \<Longrightarrow> dischargeable h = Inr (the (minSoc h) < the (electricLevel h))"
  by (auto simp: dischargeable_def known_def)

lemma chargeable_known:
  "known h \<Longrightarrow> chargeable h = Inr (the (electricLevel h) < the (socSet h))"
  by (auto simp: chargeable_def known_def)

lemma level_sensors: "sensors s' = sensors s \<Longrightarrow> level s' = level s"
  by (rule ext) (simp add: level_def)

lemma recompute_unknown:
  assumes "d \<in> set (hypers s)" and "unknown (sensors s d)"
  shows "recompute now s = (s\<lparr>next_update := now + five_minutes\<rparr>, [], Some TypeError)"
proof -
  have "filter_err (\<lambda>d. dischargeable (sensors s d)) (hypers s) = Inl TypeError"
    using assms(1) dischargeable_unknown [OF assms(2)] dischargeable_error
    by (rule filter_err_raises)
  then show ?thesis
    by (simp add: recompute_def)
qed

lemma recompute_lists:
  assumes "recompute now s = (s', fx, r)"
  shows "set (hypers_charge s') \<subseteq> set (hypers_charge s) \<union> set (hypers s) \<and>
         set (hypers_discharge s') \<subseteq> set (hypers_discharge s) \<union> set (hypers s)"
  using assms
  by (auto simp: recompute_def Let_def split: sum.splits dest!: filter_err_subset)

lemma recompute_aborts_on_unknown:
  assumes "d \<in> set (hypers s)" and "unknown (sensors s d)"
  shows "hypers_charge (fst (recompute now s)) = hypers_charge s \<and>
         hypers_discharge (fst (recompute now s)) = hypers_discharge s"
  using recompute_unknown [OF assms, of now] by simp

lemma recompute_never_adds_unknown:
  assumes "unknown (sensors s d)"
    and "d \<notin> set (hypers_charge s)" and "d \<notin> set (hypers_discharge s)"
  shows "d \<notin> set (hypers_charge (fst (recompute now s))) \<and>
         d \<notin> set (hypers_discharge (fst (recompute now s)))"
proof (cases "d \<in> set (hypers s)")
  case True
  with assms recompute_aborts_on_unknown [of d s now] show ?thesis by simp
next
  case False
  obtain s' fx r where r: "recompute now s = (s', fx, r)"
    by (cases "recompute now s")
  from recompute_lists [OF r] False assms(2,3) r show ?thesis by auto
qed

lemma recompute_known:
  assumes "\<forall>d \<in> set (hypers s). known (sensors s d)"
  shows "recompute now s =
           (ranked now s,
            [LogInfo (ValidCharging (length (hypers_charge (ranked now s)))
                        (max_charge (ranked now s))),
             LogInfo (ValidDischarging (length (hypers_discharge (ranked now s)))
                        (max_discharge (ranked now s)))],
            None)"
proof -
  let ?dq = "\<lambda>d. the (minSoc (sensors s d)) < level s d"
  let ?cq = "\<lambda>d. level s d < the (socSet (sensors s d))"
  have d: "filter_err (\<lambda>d. dischargeable (sensors s d)) (hypers s) = Inr (filter ?dq (hypers s))"
    using assms by (intro filter_err_total) (simp add: dischargeable_known level_def)
  have c: "filter_err (\<lambda>d. chargeable (sensors s d)) (hypers s) = Inr (filter ?cq (hypers s))"
    using assms by (intro filter_err_total) (simp add: chargeable_known level_def)
  have i: "py_sum (map (\<lambda>d. inputLimit (sensors s d)) (sort_key (level s) (filter ?cq (hypers s))))
             = Inr (\<Sum>d\<leftarrow>sort_key (level s) (filter ?cq (hypers s)). the (inputLimit (sensors s d)))"
    using assms by (intro py_sum_known) (simp add: known_def)
  have out: "py_sum (map (\<lambda>d. outputLimit (sensors s d))
                 (sort_key (\<lambda>d. - level s d) (filter ?dq (hypers s))))
             = Inr (\<Sum>d\<leftarrow>sort_key (\<lambda>d. - level s d) (filter ?dq (hypers s)).
                      the (outputLimit (sensors s d)))"
    using assms by (intro py_sum_known) (simp add: known_def)
  have l: "\<And>x. level (s\<lparr>next_update := x\<rparr>) = level s"
    "\<And>x y. level (s\<lparr>next_update := x, hypers_discharge := y\<rparr>) = level s"
    by (rule level_sensors, simp)+
  show ?thesis
    by (simp add: recompute_def ranked_def Let_def d c i out l)
qed

lemma recompute_frame:
  assumes "recompute now s = (s', fx, r)"
  shows "consumed s' = consumed s \<and> produced s' = produced s \<and> operation s' = operation s \<and>
         hypers s' = hypers s \<and> sensors s' = sensors s \<and> next_update s' = now + five_minutes"
  using assms
  by (auto simp: recompute_def Let_def split: sum.splits)

lemma refresh_fresh: "\<not> stale now1 s \<Longrightarrow> refresh now1 now2 s = (s, [], None)"
  by (simp add: refresh_def)

lemma refresh_stale: "stale now1 s \<Longrightarrow> refresh now1 now2 s = recompute now2 s"
  by (simp add: refresh_def)

lemma refresh_consumed:
  assumes "refresh now1 now2 s = (s', fx, r)"
  shows "consumed s' = consumed s \<and> produced s' = produced s"
proof (cases "stale now1 s")
  case True
  with assms recompute_frame [of now2 s s' fx r] show ?thesis
    by (simp add: refresh_def)
next
  case False
  with assms show ?thesis by (simp add: refresh_def)
qed

section \<open>The power-signal handler\<close>

lemma smart_matching_state: "fst (smart_matching now1 now2 ev s) = fst (refresh now1 now2 s)"
  by (cases "refresh now1 now2 s")
    (simp add: smart_matching_def Let_def split: option.splits sum.splits)

lemma update_energy_state:
  "fst (update_energy now1 now2 ev s) =
     (if operation s = 2 then fst (refresh now1 now2 s) else s)"
proof (cases "operation s = 2")
  case True
  obtain a b c where sm: "smart_matching now1 now2 ev s = (a, b, c)"
    by (cases "smart_matching now1 now2 ev s")
  with smart_matching_state [of now1 now2 ev s] have "a = fst (refresh now1 now2 s)"
    by simp
  with True sm show ?thesis
    by (cases c) (simp_all add: update_energy_def)
next
  case False
  then show ?thesis by (simp add: update_energy_def)
qed

lemma update_energy_smart:
  assumes "operation s = 2" and "smart_matching now1 now2 ev s = (s1, fx, None)"
  shows "update_energy now1 now2 ev s = (s1, fx, None)"
  using assms by (simp add: update_energy_def)

lemma smart_matching_discharging:
  assumes "refresh now1 now2 s = (s1, fx1, None)" and "power_reading ev = Inr p" and "p \<noteq> 0"
    and "py_sum (map (\<lambda>d. outputHomePower (sensors s1 d)) (hypers_discharge s1)) = Inr cur"
    and "0 < cur"
  shows "smart_matching now1 now2 ev s =
           (s1,
            fx1 @ LogInfo (UpdateEnergy p) #
              upd_discharging s1 (cur + p * (if entity_id ev = consumed s1 then 1 else - 1)),
            None)"
  using assms by (simp add: smart_matching_def)

lemma smart_matching_charging:
  assumes "refresh now1 now2 s = (s1, fx1, None)" and "power_reading ev = Inr p" and "p \<noteq> 0"
    and "py_sum (map (\<lambda>d. outputHomePower (sensors s1 d)) (hypers_discharge s1)) = Inr dis"
    and "dis \<le> 0"
    and "py_sum (map (\<lambda>d. gridInputPower (sensors s1 d)) (hypers_charge s1)) = Inr cur"
    and "0 < cur"
  shows "smart_matching now1 now2 ev s =
           (s1,
            fx1 @ LogInfo (UpdateEnergy p) #
              upd_charging s1 (cur + p * (if entity_id ev = consumed s1 then - 1 else 1)),
            None)"
  using assms by (simp add: smart_matching_def)

lemma update_energy_deadline:
  assumes "recomputes t s"
  shows "next_update (fst (update_energy t t' ev s)) = t' + five_minutes"
proof -
  obtain s' fx r where r: "recompute t' s = (s', fx, r)"
    by (cases "recompute t' s")
  from recompute_frame [OF r] r assms show ?thesis
    by (simp add: update_energy_state refresh_def recomputes_def)
qed

lemma update_energy_cached:
  "\<not> recomputes t s \<Longrightarrow> fst (update_energy t t' ev s) = s"
  by (simp add: update_energy_state refresh_def recomputes_def)

lemma update_energy_mode: "operation (fst (update_energy t t' ev s)) = operation s"
proof -
  obtain s' fx r where r: "recompute t' s = (s', fx, r)"
    by (cases "recompute t' s")
  from recompute_frame [OF r] r show ?thesis
    by (simp add: update_energy_state refresh_def)
qed

text \<open>
  A cycle that fails: the exception that leaves the handler is the \<^verbatim>\<open>NameError\<close> of
  the \<^verbatim>\<open>except\<close> clause, the exception caught is the last thing logged, and no
  command has been sent.
\<close>

lemma recompute_no_command:
  "recompute now s = (s', fx, r) \<Longrightarrow> \<not> list_ex is_command fx"
  by (auto simp: recompute_def Let_def split: sum.splits)

lemma refresh_no_command:
  "refresh now1 now2 s = (s', fx, r) \<Longrightarrow> \<not> list_ex is_command fx"
  using recompute_no_command [of now2 s s' fx r]
  by (auto simp: refresh_def split: if_splits)

lemma smart_matching_raise_no_command:
  assumes "smart_matching now1 now2 ev s = (s', fx, Some e)"
  shows "\<not> list_ex is_command fx"
proof -
  obtain s1 fx1 r1 where r: "refresh now1 now2 s = (s1, fx1, r1)"
    by (cases "refresh now1 now2 s")
  note n = refresh_no_command [OF r]
  show ?thesis
    using assms n r
    by (auto simp: smart_matching_def Let_def split: option.splits sum.splits if_splits)
qed

lemma failed_cycle:
  assumes "update_energy now1 now2 ev s = (s', fx, Some e)"
  shows "e = NameError \<and> \<not> list_ex is_command fx \<and> (\<exists>e' fx'. fx = fx' @ [LogError e'])"
proof -
  obtain a b c where sm: "smart_matching now1 now2 ev s = (a, b, c)"
    by (cases "smart_matching now1 now2 ev s")
  show ?thesis
  proof (cases c)
    case None
    with assms sm show ?thesis
      by (auto simp: update_energy_def split: if_splits)
  next
    case (Some e0)
    with sm smart_matching_raise_no_command [of now1 now2 ev s a b e0]
    have "\<not> list_ex is_command b" by simp
    with assms sm Some show ?thesis
      by (auto simp: update_energy_def split: if_splits)
  qed
qed

text \<open>A command goes only to a member of a candidate list.\<close>

lemma upd_charging_targets:
  "UpdatePower d a b c \<in> set (upd_charging s w) \<Longrightarrow> d \<in> set (hypers_charge s)"
  by (cases "hypers_charge s") (auto simp: upd_charging_def split: if_splits)

lemma upd_discharging_targets:
  "UpdatePower d a b c \<in> set (upd_discharging s w) \<Longrightarrow> d \<in> set (hypers_discharge s)"
  by (cases "hypers_discharge s") (auto simp: upd_discharging_def split: if_splits)

lemma not_command_member:
  "\<not> list_ex is_command fx \<Longrightarrow> UpdatePower d a b c \<notin> set fx"
  by (auto simp: list_ex_iff)

lemma smart_matching_targets:
  assumes "smart_matching now1 now2 ev s = (s1, fx, r)"
    and "UpdatePower d a b c \<in> set fx"
  shows "d \<in> set (hypers_charge s1) \<union> set (hypers_discharge s1)"
proof -
  obtain s0 fx0 r0 where r: "refresh now1 now2 s = (s0, fx0, r0)"
    by (cases "refresh now1 now2 s")
  have n: "UpdatePower d a b c \<notin> set fx0"
    using refresh_no_command [OF r] by (rule not_command_member)
  show ?thesis
    using assms r n
    by (auto simp: smart_matching_def Let_def split: option.splits sum.splits if_splits
        dest: upd_charging_targets upd_discharging_targets)
qed

lemma update_energy_targets:
  assumes "UpdatePower d a b c \<in> set (fst (snd (update_energy now1 now2 ev s)))"
  shows "d \<in> set (hypers_charge (fst (update_energy now1 now2 ev s))) \<union>
             set (hypers_discharge (fst (update_energy now1 now2 ev s)))"
proof -
  obtain s1 fx r where sm: "smart_matching now1 now2 ev s = (s1, fx, r)"
    by (cases "smart_matching now1 now2 ev s")
  show ?thesis
  proof (cases "operation s = 2")
    case True
    with assms sm have "UpdatePower d a b c \<in> set fx"
      by (cases r) (auto simp: update_energy_def)
    from smart_matching_targets [OF sm this] True sm show ?thesis
      by (cases r) (auto simp: update_energy_def)
  next
    case False
    then have "update_energy now1 now2 ev s = (s, [], None)"
      by (simp add: update_energy_def)
    with assms show ?thesis by simp
  qed
qed

section \<open>The inbound-message handler\<close>

lemma on_message_no_escape: "snd (snd (on_message hm msg s)) = None"
  by (simp add: on_message_def split: sum.splits option.splits prod.splits)

lemma on_message_parse_error:
  "payload msg = Inl e \<Longrightarrow> on_message hm msg s = (s, [LogError e], None)"
  by (simp add: on_message_def)

lemma on_message_no_device_id:
  assumes "payload msg = Inr pl" and "device_id pl = None"
  shows "fst (on_message hm msg s) = s"
  using assms
  by (cases pl) (simp_all add: on_message_def device_id_def)

lemma on_message_unknown_device:
  assumes "payload msg = Inr pl" and "device_id pl = Some (JStr k)" and "k \<notin> set (hypers s)"
  shows "on_message hm msg s = (s, [], None)"
  using assms
  by (cases pl) (simp_all add: on_message_def device_id_def)

lemma on_message_not_object:
  assumes "payload msg = Inr pl" and "\<not> is_object pl"
  shows "on_message hm msg s = (s, [LogError AttributeError], None)"
  using assms by (cases pl) (simp_all add: on_message_def)

lemma on_message_no_member:
  assumes "payload msg = Inr pl" and "is_object pl" and "device_id pl = None"
  shows "on_message hm msg s = (s, [], None)"
  using assms by (cases pl) (simp_all add: on_message_def device_id_def)

section \<open>The claims\<close>

subsection \<open>C1: when the ranked fleet is recomputed\<close>

text \<open>
  C1 says that in mode 2 a power signal recomputes the ranked fleet exactly when both
  candidate lists are empty or the deadline has passed, and that a recomputation resets
  the deadline to five minutes after the clock reading. The test of line 134 reads
  \<^verbatim>\<open>_hypers_charge\<close> twice and \<^verbatim>\<open>_hypers_discharge\<close> never. One device whose
  battery is full (level 100, charge target 100, floor 10) is ranked by the first signal
  at clock reading 1: the chargeable list stays empty, the dischargeable list is
  \<open>[''A'']\<close>, the deadline is 300000001. The next signal, at clock reading 2, finds
  a non-empty dischargeable list and a deadline that has not passed, and recomputes all
  the same: the deadline moves to 300000003 and the two summary records are logged again.
\<close>

theorem recompute_on_discharge_only:
  "fst (update_energy 1 1 (event_of ''sensor.consumed'' 0) full_battery) = full_battery_ranked \<and>
   hypers_charge full_battery_ranked = [] \<and>
   hypers_discharge full_battery_ranked = [''A''] \<and>
   next_update full_battery_ranked = 300000001 \<and>
   recomputes 2 full_battery_ranked \<and>
   update_energy 2 3 (event_of ''sensor.consumed'' 0) full_battery_ranked =
     (full_battery_ranked\<lparr>next_update := 300000003\<rparr>,
      [LogInfo (ValidCharging 0 0), LogInfo (ValidDischarging 1 1200)], None)"
  by (simp add: update_energy_def smart_matching_def recomputes_def full_battery_ranked_def
      full_battery_def ranking_defs fleet_defs)

subsection \<open>C2: exceptions at the handler boundary\<close>

text \<open>
  C2 says that an exception raised while ranking or allocating is caught at the boundary
  of the handler and logged, that no command is sent in that cycle, and that no error
  leaves the handler. With one device that has not reported yet, the first comparison of
  the ranking raises a \<^verbatim>\<open>TypeError\<close>; it is caught and logged and no command is sent
  (as in every failed cycle, by \<open>failed_cycle\<close>), but the \<^verbatim>\<open>except\<close> clause then
  raises a \<^verbatim>\<open>NameError\<close> of its own, which leaves the handler.
\<close>

theorem handler_error_escapes:
  "update_energy 1 1 (event_of ''sensor.consumed'' 100) unknown_fleet =
     (unknown_fleet\<lparr>next_update := 300000001\<rparr>, [LogError TypeError], Some NameError)"
  by (simp add: update_energy_def smart_matching_def unknown_fleet_def ranking_defs fleet_defs)

subsection \<open>C3: devices in unknown state\<close>

text \<open>
  C3: a device whose state attributes are all unknown, and which is in neither candidate
  list (both lists start empty and only the recompute pass assigns them), is in neither
  list after a recompute pass and after a power signal, and the power signal sends no
  command to it. The pass has no filter for unknown states: with such a device in the
  catalog its first comparison raises and neither list is assigned (lemma
  \<open>recompute_unknown\<close>).
\<close>

theorem unknown_never_ranked:
  assumes "unknown (sensors s d)"
    and "d \<notin> set (hypers_charge s)" and "d \<notin> set (hypers_discharge s)"
  shows "d \<notin> set (hypers_charge (fst (recompute now2 s))) \<and>
         d \<notin> set (hypers_discharge (fst (recompute now2 s))) \<and>
         d \<notin> set (hypers_charge (fst (update_energy now1 now2 ev s))) \<and>
         d \<notin> set (hypers_discharge (fst (update_energy now1 now2 ev s))) \<and>
         (\<forall>a b c. UpdatePower d a b c \<notin> set (fst (snd (update_energy now1 now2 ev s))))"
proof -
  note r = recompute_never_adds_unknown [OF assms, of now2]
  have u: "d \<notin> set (hypers_charge (fst (update_energy now1 now2 ev s))) \<and>
           d \<notin> set (hypers_discharge (fst (update_energy now1 now2 ev s)))"
    using r assms(2,3) by (simp add: update_energy_state refresh_def)
  have "\<And>a b c. UpdatePower d a b c \<notin> set (fst (snd (update_energy now1 now2 ev s)))"
    using u update_energy_targets [of d _ _ _ now1 now2 ev s] by blast
  with r u show ?thesis by blast
qed

theorem unknown_never_ranked_witness:
  "''B'' \<notin> set (hypers_charge (fst (recompute 1 mixed_fleet))) \<and>
   ''B'' \<notin> set (hypers_discharge (fst (recompute 1 mixed_fleet))) \<and>
   ''B'' \<notin> set (hypers_charge
      (fst (update_energy 1 1 (event_of ''sensor.consumed'' 100) mixed_fleet))) \<and>
   ''B'' \<notin> set (hypers_discharge
      (fst (update_energy 1 1 (event_of ''sensor.consumed'' 100) mixed_fleet))) \<and>
   UpdatePower ''B'' 0 0 100 \<notin>
     set (fst (snd (update_energy 1 1 (event_of ''sensor.consumed'' 100) mixed_fleet)))"
  using unknown_never_ranked [of mixed_fleet "''B''" 1 1 "event_of ''sensor.consumed'' 100"]
  by (simp add: mixed_fleet_def unknown_def fleet_defs)

subsection \<open>C4: ranking of known devices\<close>

text \<open>
  C4: when every device of the catalog reports numbers, with \<^verbatim>\<open>minSoc\<close> and
  \<^verbatim>\<open>socSet\<close> of magnitude up to \<open>2 ^ 53\<close> so that \<^verbatim>\<open>float\<close> converts them without
  rounding, the recompute pass raises nothing; the chargeable list holds exactly the
  devices with \<^verbatim>\<open>electricLevel < socSet\<close>, each once, in ascending order of level; the
  dischargeable list holds exactly the devices with \<^verbatim>\<open>electricLevel > minSoc\<close>, each
  once, in descending order of level; and the two limits are the sums of the members'
  \<^verbatim>\<open>inputLimit\<close> and \<^verbatim>\<open>outputLimit\<close>.
\<close>

theorem ranking_correctness:
  assumes "distinct (hypers s)"
    and "\<forall>d \<in> set (hypers s). known (sensors s d)"
    and "\<forall>d \<in> set (hypers s).
           exact_double (the (minSoc (sensors s d))) \<and> exact_double (the (socSet (sensors s d)))"
    and "recompute now s = (s', fx, r)"
  shows "r = None \<and>
         set (hypers_charge s') = {d \<in> set (hypers s). level s d < the (socSet (sensors s d))} \<and>
         distinct (hypers_charge s') \<and>
         sorted (map (level s) (hypers_charge s')) \<and>
         set (hypers_discharge s') = {d \<in> set (hypers s). the (minSoc (sensors s d)) < level s d} \<and>
         distinct (hypers_discharge s') \<and>
         sorted (rev (map (level s) (hypers_discharge s'))) \<and>
         max_charge s' = (\<Sum>d\<leftarrow>hypers_charge s'. the (inputLimit (sensors s d))) \<and>
         max_discharge s' = (\<Sum>d\<leftarrow>hypers_discharge s'. the (outputLimit (sensors s d)))"
proof -
  from assms(4) recompute_known [OF assms(2), of now]
  have s': "s' = ranked now s" and r: "r = None"
    by simp_all
  have cs: "set (hypers_charge s') = {d \<in> set (hypers s). level s d < the (socSet (sensors s d))}"
    by (auto simp: s' ranked_def Let_def)
  have cd: "distinct (hypers_charge s')"
    using assms(1) by (simp add: s' ranked_def Let_def)
  have co: "sorted (map (level s) (hypers_charge s'))"
    by (simp add: s' ranked_def Let_def)
  have ds: "set (hypers_discharge s') =
              {d \<in> set (hypers s). the (minSoc (sensors s d)) < level s d}"
    by (auto simp: s' ranked_def Let_def)
  have dd: "distinct (hypers_discharge s')"
    using assms(1) by (simp add: s' ranked_def Let_def)
  have "sorted (map (\<lambda>d. - level s d) (hypers_discharge s'))"
    by (simp add: s' ranked_def Let_def)
  then have do: "sorted (rev (map (level s) (hypers_discharge s')))"
    by (rule sorted_descending)
  have mc: "max_charge s' = (\<Sum>d\<leftarrow>hypers_charge s'. the (inputLimit (sensors s d)))"
    by (simp add: s' ranked_def Let_def)
  have md: "max_discharge s' = (\<Sum>d\<leftarrow>hypers_discharge s'. the (outputLimit (sensors s d)))"
    by (simp add: s' ranked_def Let_def)
  from r cs cd co ds dd do mc md show ?thesis by blast
qed

theorem ranking_correctness_witness:
  "snd (snd (recompute 7 ranking_fleet)) = None \<and>
   set (hypers_charge (fst (recompute 7 ranking_fleet))) = {''A'', ''C''} \<and>
   distinct (hypers_charge (fst (recompute 7 ranking_fleet))) \<and>
   sorted (map (level ranking_fleet) (hypers_charge (fst (recompute 7 ranking_fleet)))) \<and>
   set (hypers_discharge (fst (recompute 7 ranking_fleet))) = {''A'', ''B''} \<and>
   distinct (hypers_discharge (fst (recompute 7 ranking_fleet))) \<and>
   sorted (rev (map (level ranking_fleet) (hypers_discharge (fst (recompute 7 ranking_fleet)))))"
  using ranking_correctness [of ranking_fleet 7 "fst (recompute 7 ranking_fleet)"
      "fst (snd (recompute 7 ranking_fleet))" "snd (snd (recompute 7 ranking_fleet))"]
  by (auto simp: ranking_fleet_def known_def exact_double_def level_def fleet_defs)

subsection \<open>C5: the allocation threshold\<close>

text \<open>
  C5: with an empty candidate list an allocation sends nothing (it only logs the
  request); with a non-empty list and fewer than 400 watts the whole amount goes to the
  first candidate and every other candidate is sent the zero-flow command; from 400
  watts on, and below \<open>2 ^ 53\<close> watts, where the double of \<^verbatim>\<open>charge / len(...)\<close>
  has the integer part of the exact quotient, every candidate is sent the floor of the
  amount divided by the number of candidates, and the remainder is dropped. This holds
  for \<^verbatim>\<open>upd_charging\<close> and for \<^verbatim>\<open>upd_discharging\<close>.
\<close>

theorem allocation_threshold:
  "(hypers_charge s = [] \<longrightarrow> upd_charging s w = [LogInfo (Charging w)]) \<and>
   (hypers_charge s = h0 # rest \<and> w < 400 \<longrightarrow>
      upd_charging s w =
        LogInfo (Charging w) # UpdatePower h0 1 w 0 # map (\<lambda>h. UpdatePower h 0 0 0) rest) \<and>
   (hypers_charge s \<noteq> [] \<and> 400 \<le> w \<and> w < 2 ^ 53 \<longrightarrow>
      upd_charging s w =
        LogInfo (Charging w) #
        map (\<lambda>h. UpdatePower h 1 (w div int (length (hypers_charge s))) 0) (hypers_charge s)) \<and>
   (hypers_discharge t = [] \<longrightarrow> upd_discharging t v = [LogInfo (Discharging v)]) \<and>
   (hypers_discharge t = k0 # others \<and> v < 400 \<longrightarrow>
      upd_discharging t v =
        LogInfo (Discharging v) # UpdatePower k0 0 0 v # map (\<lambda>h. UpdatePower h 0 0 0) others) \<and>
   (hypers_discharge t \<noteq> [] \<and> 400 \<le> v \<and> v < 2 ^ 53 \<longrightarrow>
      upd_discharging t v =
        LogInfo (Discharging v) #
        map (\<lambda>h. UpdatePower h 0 0 (v div int (length (hypers_discharge t)))) (hypers_discharge t))"
proof -
  have c1: "hypers_charge s = [] \<longrightarrow> upd_charging s w = [LogInfo (Charging w)]"
    by (simp add: upd_charging_def)
  have c2: "hypers_charge s = h0 # rest \<and> w < 400 \<longrightarrow>
      upd_charging s w =
        LogInfo (Charging w) # UpdatePower h0 1 w 0 # map (\<lambda>h. UpdatePower h 0 0 0) rest"
    by (simp add: upd_charging_def)
  have c3: "hypers_charge s \<noteq> [] \<and> 400 \<le> w \<and> w < 2 ^ 53 \<longrightarrow>
      upd_charging s w =
        LogInfo (Charging w) #
        map (\<lambda>h. UpdatePower h 1 (w div int (length (hypers_charge s))) 0) (hypers_charge s)"
    by (cases "hypers_charge s") (simp_all add: upd_charging_def int_truediv_floor)
  have d1: "hypers_discharge t = [] \<longrightarrow> upd_discharging t v = [LogInfo (Discharging v)]"
    by (simp add: upd_discharging_def)
  have d2: "hypers_discharge t = k0 # others \<and> v < 400 \<longrightarrow>
      upd_discharging t v =
        LogInfo (Discharging v) # UpdatePower k0 0 0 v # map (\<lambda>h. UpdatePower h 0 0 0) others"
    by (simp add: upd_discharging_def)
  have d3: "hypers_discharge t \<noteq> [] \<and> 400 \<le> v \<and> v < 2 ^ 53 \<longrightarrow>
      upd_discharging t v =
        LogInfo (Discharging v) #
        map (\<lambda>h. UpdatePower h 0 0 (v div int (length (hypers_discharge t)))) (hypers_discharge t)"
    by (cases "hypers_discharge t") (simp_all add: upd_discharging_def int_truediv_floor)
  from c1 c2 c3 d1 d2 d3 show ?thesis by blast
qed

theorem allocation_threshold_witness:
  "upd_charging three_candidates 399 =
     [LogInfo (Charging 399), UpdatePower ''A'' 1 399 0, UpdatePower ''B'' 0 0 0,
      UpdatePower ''C'' 0 0 0] \<and>
   upd_charging three_candidates 600 =
     [LogInfo (Charging 600), UpdatePower ''A'' 1 200 0, UpdatePower ''B'' 1 200 0,
      UpdatePower ''C'' 1 200 0] \<and>
   upd_discharging three_candidates 399 =
     [LogInfo (Discharging 399), UpdatePower ''C'' 0 0 399, UpdatePower ''B'' 0 0 0,
      UpdatePower ''A'' 0 0 0] \<and>
   upd_discharging three_candidates 1000 =
     [LogInfo (Discharging 1000), UpdatePower ''C'' 0 0 333, UpdatePower ''B'' 0 0 333,
      UpdatePower ''A'' 0 0 333] \<and>
   upd_charging (init_manager 0 [] (\<lambda>_. unknown_hyper)) 600 = [LogInfo (Charging 600)] \<and>
   upd_discharging (init_manager 0 [] (\<lambda>_. unknown_hyper)) 600 = [LogInfo (Discharging 600)]"
  using
    allocation_threshold [of three_candidates 399 "''A''" "[''B'', ''C'']"
      three_candidates 399 "''C''" "[''B'', ''A'']"]
    allocation_threshold [of three_candidates 600 "''A''" "[''B'', ''C'']"
      three_candidates 1000 "''C''" "[''B'', ''A'']"]
    allocation_threshold [of "init_manager 0 [] (\<lambda>_. unknown_hyper)" 600 _ _
      "init_manager 0 [] (\<lambda>_. unknown_hyper)" 600]
  by (simp add: three_candidates_def init_manager_def)

subsection \<open>C6: the sign convention\<close>

text \<open>
  C6: in mode 2, for a non-zero power signal \<open>p\<close> and the lists in force after the
  staleness step: when the discharging aggregate is positive, a signal from the consumed
  meter rebalances the discharge to the aggregate plus \<open>p\<close> and one from the produced
  meter to the aggregate minus \<open>p\<close>; when the discharging aggregate is not positive and
  the charging aggregate is, the consumed meter rebalances the charge to the aggregate
  minus \<open>p\<close> and the produced meter to the aggregate plus \<open>p\<close>.
\<close>

theorem sign_convention:
  assumes "operation s = 2"
    and "refresh now1 now2 s = (s1, fx1, None)"
    and "power_reading ev = Inr p" and "p \<noteq> 0"
    and "py_sum (map (\<lambda>d. outputHomePower (sensors s1 d)) (hypers_discharge s1)) = Inr dis"
  shows "(0 < dis \<and> entity_id ev = consumed s \<longrightarrow>
            update_energy now1 now2 ev s =
              (s1, fx1 @ LogInfo (UpdateEnergy p) # upd_discharging s1 (dis + p), None)) \<and>
         (0 < dis \<and> entity_id ev = produced s \<and> produced s \<noteq> consumed s \<longrightarrow>
            update_energy now1 now2 ev s =
              (s1, fx1 @ LogInfo (UpdateEnergy p) # upd_discharging s1 (dis - p), None)) \<and>
         (dis \<le> 0 \<and> py_sum (map (\<lambda>d. gridInputPower (sensors s1 d)) (hypers_charge s1)) = Inr chg \<and>
          0 < chg \<and> entity_id ev = consumed s \<longrightarrow>
            update_energy now1 now2 ev s =
              (s1, fx1 @ LogInfo (UpdateEnergy p) # upd_charging s1 (chg - p), None)) \<and>
         (dis \<le> 0 \<and> py_sum (map (\<lambda>d. gridInputPower (sensors s1 d)) (hypers_charge s1)) = Inr chg \<and>
          0 < chg \<and> entity_id ev = produced s \<and> produced s \<noteq> consumed s \<longrightarrow>
            update_energy now1 now2 ev s =
              (s1, fx1 @ LogInfo (UpdateEnergy p) # upd_charging s1 (chg + p), None))"
proof -
  note c = refresh_consumed [OF assms(2)]
  have a: "0 < dis \<Longrightarrow> update_energy now1 now2 ev s =
      (s1, fx1 @ LogInfo (UpdateEnergy p) #
         upd_discharging s1 (dis + p * (if entity_id ev = consumed s then 1 else - 1)), None)"
    using smart_matching_discharging [OF assms(2,3,4,5)] c
    by (simp add: update_energy_smart [OF assms(1)])
  have b: "dis \<le> 0 \<Longrightarrow>
      py_sum (map (\<lambda>d. gridInputPower (sensors s1 d)) (hypers_charge s1)) = Inr chg \<Longrightarrow>
      0 < chg \<Longrightarrow> update_energy now1 now2 ev s =
      (s1, fx1 @ LogInfo (UpdateEnergy p) #
         upd_charging s1 (chg + p * (if entity_id ev = consumed s then - 1 else 1)), None)"
    using smart_matching_charging [OF assms(2,3,4,5)] c
    by (simp add: update_energy_smart [OF assms(1)])
  show ?thesis
    using a b by auto
qed

theorem sign_convention_witness:
  "update_energy 1 1 (event_of ''sensor.consumed'' 100) discharging_300 =
     (discharging_300,
      [LogInfo (UpdateEnergy 100), LogInfo (Discharging 400), UpdatePower ''A'' 0 0 400], None) \<and>
   update_energy 1 1 (event_of ''sensor.produced'' 100) discharging_300 =
     (discharging_300,
      [LogInfo (UpdateEnergy 100), LogInfo (Discharging 200), UpdatePower ''A'' 0 0 200], None) \<and>
   update_energy 1 1 (event_of ''sensor.consumed'' 100) charging_300 =
     (charging_300,
      [LogInfo (UpdateEnergy 100), LogInfo (Charging 200), UpdatePower ''A'' 1 200 0], None) \<and>
   update_energy 1 1 (event_of ''sensor.produced'' 100) charging_300 =
     (charging_300,
      [LogInfo (UpdateEnergy 100), LogInfo (Charging 400), UpdatePower ''A'' 1 400 0], None)"
  using
    sign_convention [of discharging_300 1 1 discharging_300 "[]"
      "event_of ''sensor.consumed'' 100" 100 300]
    sign_convention [of discharging_300 1 1 discharging_300 "[]"
      "event_of ''sensor.produced'' 100" 100 300]
    sign_convention [of charging_300 1 1 charging_300 "[]"
      "event_of ''sensor.consumed'' 100" 100 0 300]
    sign_convention [of charging_300 1 1 charging_300 "[]"
      "event_of ''sensor.produced'' 100" 100 0 300]
  by (simp add: discharging_300_def charging_300_def refresh_def stale_def py_sum_def
      upd_discharging_def upd_charging_def int_truediv_def fleet_defs)

subsection \<open>C7: all-stop on leaving smart matching\<close>

text \<open>
  C7: a mode change to any mode other than 2, which covers leaving smart matching and
  entering off or manual, stores the mode and sends the zero-flow command
  \<^verbatim>\<open>update_power(mqtt, 0, 0, 0)\<close> to every device of the catalog, once each, and
  nothing else.
\<close>

theorem all_stop_on_mode_exit:
  assumes "op \<noteq> 2" and "distinct (hypers s)"
  shows "operation (fst (update_operation op s)) = op \<and>
         snd (update_operation op s) = map (\<lambda>h. UpdatePower h 0 0 0) (hypers s) \<and>
         (\<forall>d \<in> set (hypers s).
            count_list (snd (update_operation op s)) (UpdatePower d 0 0 0) = 1)"
  using assms
  by (simp add: update_operation_def count_list_map_distinct [OF inj_zero_flow])

theorem all_stop_on_mode_exit_witness:
  "operation (fst (update_operation 0 three_candidates)) = 0 \<and>
   snd (update_operation 0 three_candidates) =
     [UpdatePower ''A'' 0 0 0, UpdatePower ''B'' 0 0 0, UpdatePower ''C'' 0 0 0] \<and>
   count_list (snd (update_operation 0 three_candidates)) (UpdatePower ''B'' 0 0 0) = 1"
  using all_stop_on_mode_exit [of 0 three_candidates]
  by (simp add: three_candidates_def init_manager_def)

subsection \<open>C8: malformed inbound messages\<close>

text \<open>
  C8, as amended: an inbound message whose payload does not parse, or is not an object,
  or is an object without a \<^verbatim>\<open>deviceId\<close> member, or names a device that is not in the
  catalog, leaves the manager and every device unchanged, and no exception leaves the
  handler, whatever \<^verbatim>\<open>handle_message\<close> does. A missing \<^verbatim>\<open>deviceId\<close> and an unknown
  device are discarded without a trace; a payload that does not parse is logged as an
  error with the exception of the parser, and a payload that is not an object is logged
  as an error with the \<^verbatim>\<open>AttributeError\<close> of \<^verbatim>\<open>payload.get\<close>.
\<close>

theorem malformed_input_tolerance:
  "(payload msg = Inl e \<longrightarrow> on_message hm msg s = (s, [LogError e], None)) \<and>
   (payload msg = Inr pl \<and> \<not> is_object pl \<longrightarrow>
      on_message hm msg s = (s, [LogError AttributeError], None)) \<and>
   (payload msg = Inr pl \<and> is_object pl \<and> device_id pl = None \<longrightarrow>
      on_message hm msg s = (s, [], None)) \<and>
   (payload msg = Inr pl \<and> device_id pl = Some (JStr k) \<and> k \<notin> set (hypers s) \<longrightarrow>
      on_message hm msg s = (s, [], None))"
  using on_message_parse_error [of msg e hm s] on_message_not_object [of msg pl hm s]
    on_message_no_member [of msg pl hm s] on_message_unknown_device [of msg pl k s hm]
  by blast

text \<open>
  C8 as stated has every such message discarded silently. A payload that does not parse
  and a payload that is a JSON array each leave an error record in the log.
\<close>

theorem discarded_silently_counterexample:
  "on_message set_level \<lparr>topic = ''t'', payload = Inl JSONDecodeError\<rparr> three_candidates =
     (three_candidates, [LogError JSONDecodeError], None) \<and>
   on_message set_level \<lparr>topic = ''t'', payload = Inr (JArr [JStr ''A''])\<rparr> three_candidates =
     (three_candidates, [LogError AttributeError], None)"
  by (simp add: on_message_def)

theorem malformed_input_tolerance_witness:
  "on_message set_level \<lparr>topic = ''t'', payload = Inl UnicodeDecodeError\<rparr> three_candidates =
     (three_candidates, [LogError UnicodeDecodeError], None) \<and>
   on_message set_level \<lparr>topic = ''t'', payload = Inr (JStr ''A'')\<rparr> three_candidates =
     (three_candidates, [LogError AttributeError], None) \<and>
   on_message set_level \<lparr>topic = ''t'', payload = Inr (JObj [(''soc'', JNum 5)])\<rparr>
     three_candidates = (three_candidates, [], None) \<and>
   on_message set_level
     \<lparr>topic = ''t'', payload = Inr (JObj [(''deviceId'', JStr ''Z''), (''soc'', JNum 5)])\<rparr>
     three_candidates = (three_candidates, [], None)"
  using
    malformed_input_tolerance [of "\<lparr>topic = ''t'', payload = Inl UnicodeDecodeError\<rparr>"
      UnicodeDecodeError set_level three_candidates]
    malformed_input_tolerance [of "\<lparr>topic = ''t'', payload = Inr (JStr ''A'')\<rparr>"
      _ set_level three_candidates "JStr ''A''"]
    malformed_input_tolerance [of "\<lparr>topic = ''t'', payload = Inr (JObj [(''soc'', JNum 5)])\<rparr>"
      _ set_level three_candidates "JObj [(''soc'', JNum 5)]"]
    malformed_input_tolerance [of
      "\<lparr>topic = ''t'', payload = Inr (JObj [(''deviceId'', JStr ''Z''), (''soc'', JNum 5)])\<rparr>"
      _ set_level three_candidates "JObj [(''deviceId'', JStr ''Z''), (''soc'', JNum 5)]" "''Z''"]
  by (simp add: device_id_def three_candidates_def init_manager_def)

subsection \<open>C9: freshness caching\<close>

text \<open>
  C9, as amended: of two power signals in the same five-minute window, the second no
  later than five minutes after the first, at most one triggers a recomputation (which
  only happens in mode 2), provided the chargeable list is not empty after the first;
  when the first one recomputes, it sets the deadline to five minutes after its clock
  reading and the second leaves the manager as the first left it. While both candidate
  lists are empty, every power signal in mode 2 recomputes and resets the deadline.
  The two clock readings of the first signal are \<open>t1\<close> and \<open>t1'\<close>, in this order.
\<close>

theorem freshness_caching:
  "(t1 \<le> t1' \<and> t2 \<le> t1 + five_minutes \<and>
    hypers_charge (fst (update_energy t1 t1' ev1 s)) \<noteq> [] \<longrightarrow>
      (of_bool (recomputes t1 s) +
       of_bool (recomputes t2 (fst (update_energy t1 t1' ev1 s))) :: nat) \<le> 1 \<and>
      (recomputes t1 s \<longrightarrow>
         next_update (fst (update_energy t1 t1' ev1 s)) = t1' + five_minutes \<and>
         fst (update_energy t2 t2' ev2 (fst (update_energy t1 t1' ev1 s))) =
           fst (update_energy t1 t1' ev1 s))) \<and>
   (operation u = 2 \<and> hypers_charge u = [] \<and> hypers_discharge u = [] \<longrightarrow>
      recomputes t u \<and> next_update (fst (update_energy t t' ev u)) = t' + five_minutes)"
proof -
  let ?s1 = "fst (update_energy t1 t1' ev1 s)"
  have a: "\<not> recomputes t2 ?s1"
    if "recomputes t1 s" "t1 \<le> t1'" "t2 \<le> t1 + five_minutes" "hypers_charge ?s1 \<noteq> []"
  proof -
    from update_energy_deadline [OF that(1), of t1' ev1]
    have "next_update ?s1 = t1' + five_minutes" .
    with that(2,3,4) show ?thesis
      by (simp add: recomputes_def stale_def)
  qed
  have b: "recomputes t u \<and> next_update (fst (update_energy t t' ev u)) = t' + five_minutes"
    if "operation u = 2" "hypers_charge u = []" "hypers_discharge u = []"
  proof -
    from that have "recomputes t u"
      by (simp add: recomputes_def stale_def)
    with update_energy_deadline [of t u t' ev] show ?thesis by simp
  qed
  show ?thesis
    using a b update_energy_deadline [of t1 s t1' ev1] update_energy_cached [of t2 ?s1 t2' ev2]
    by auto
qed

text \<open>
  C9 as stated fails while both candidate lists are empty: with an empty catalog, the
  signals at clock readings 1 and 2 both recompute, the second one long before the
  deadline 300000001 set by the first.
\<close>

theorem freshness_caching_counterexample:
  "recomputes 1 empty_fleet \<and>
   update_energy 1 1 (event_of ''sensor.consumed'' 100) empty_fleet =
     (empty_fleet\<lparr>next_update := 300000001\<rparr>,
      [LogInfo (ValidCharging 0 0), LogInfo (ValidDischarging 0 0), LogInfo (UpdateEnergy 100),
       LogInfo (Discharging 100)], None) \<and>
   recomputes 2 (empty_fleet\<lparr>next_update := 300000001\<rparr>) \<and>
   update_energy 2 2 (event_of ''sensor.consumed'' 100) (empty_fleet\<lparr>next_update := 300000001\<rparr>) =
     (empty_fleet\<lparr>next_update := 300000002\<rparr>,
      [LogInfo (ValidCharging 0 0), LogInfo (ValidDischarging 0 0), LogInfo (UpdateEnergy 100),
       LogInfo (Discharging 100)], None)"
  by (simp add: update_energy_def smart_matching_def recomputes_def empty_fleet_def
      upd_discharging_def upd_charging_def ranking_defs fleet_defs)

theorem freshness_caching_witness:
  "(of_bool (recomputes 1 half_full) +
    of_bool (recomputes 2 (fst (update_energy 1 1 (event_of ''sensor.consumed'' 100) half_full)))
      :: nat) \<le> 1 \<and>
   next_update (fst (update_energy 1 1 (event_of ''sensor.consumed'' 100) half_full)) =
     1 + five_minutes \<and>
   fst (update_energy 2 2 (event_of ''sensor.produced'' 50)
          (fst (update_energy 1 1 (event_of ''sensor.consumed'' 100) half_full))) =
     fst (update_energy 1 1 (event_of ''sensor.consumed'' 100) half_full) \<and>
   recomputes 5 empty_fleet \<and>
   next_update (fst (update_energy 5 6 (event_of ''sensor.consumed'' 100) empty_fleet)) =
     6 + five_minutes"
  using
    freshness_caching [where s = half_full and ?t1.0 = 1 and t1' = 1 and ?t2.0 = 2
      and ?ev1.0 = "event_of ''sensor.consumed'' 100" and t2' = 2
      and ?ev2.0 = "event_of ''sensor.produced'' 50" and u = empty_fleet and t = 5 and t' = 6
      and ev = "event_of ''sensor.consumed'' 100"]
  by (simp add: update_energy_state recomputes_def half_full_def empty_fleet_def ranking_defs
      fleet_defs)

subsection \<open>C10: negative targets\<close>

text \<open>
  C10: a negative target takes the branch below 400 watts in both allocation functions:
  the first candidate is sent the negative amount as it is, every other candidate the
  zero-flow command; nothing is clamped.
\<close>

theorem negative_target_unclamped:
  assumes "w < 0"
  shows "(hypers_charge s = h0 # rest \<longrightarrow>
            upd_charging s w =
              LogInfo (Charging w) # UpdatePower h0 1 w 0 # map (\<lambda>h. UpdatePower h 0 0 0) rest) \<and>
         (hypers_discharge t = k0 # others \<longrightarrow>
            upd_discharging t w =
              LogInfo (Discharging w) # UpdatePower k0 0 0 w # map (\<lambda>h. UpdatePower h 0 0 0) others)"
  using assms by (simp add: upd_charging_def upd_discharging_def)

theorem negative_target_unclamped_witness:
  "upd_charging three_candidates (300 - 500) =
     [LogInfo (Charging (- 200)), UpdatePower ''A'' 1 (- 200) 0, UpdatePower ''B'' 0 0 0,
      UpdatePower ''C'' 0 0 0] \<and>
   upd_discharging three_candidates (300 - 500) =
     [LogInfo (Discharging (- 200)), UpdatePower ''C'' 0 0 (- 200), UpdatePower ''B'' 0 0 0,
      UpdatePower ''A'' 0 0 0]"
  using negative_target_unclamped [of "300 - 500" three_candidates "''A''" "[''B'', ''C'']"
      three_candidates "''C''" "[''B'', ''A'']"]
  by (simp add: three_candidates_def init_manager_def)

end
